theory Spec2Isabelle
  imports Main "HOL-Library.Word"
begin

unbundle bit_operations_syntax

section \<open>The undefined-behaviour trap runtime\<close>

text \<open>
  The module receives control from compiler-inserted checks. Every entry point hands the
  source location embedded at the start of its descriptor to one shared routine,
  \<open>ubsan_handle_error\<close>, which marks the location as reported, prints one line and, when
  asked to, stops the machine. The embedding below follows the C text function by
  function. Memory that the C code mutates through a pointer (the \<open>column\<close> word of a
  location) is passed in and returned; the console and the calls of the halt primitive
  are recorded as a list of events; a function that does not give control back to its
  caller has the control value \<open>None\<close>.
\<close>

subsection \<open>Data model\<close>

text \<open>
  Pointers, \<open>unsigned long\<close> and \<open>size_t\<close> are machine words of the 32-bit target whose
  platform header accompanies the module. No handler inspects a value of this type.
\<close>

type_synonym vaddr = "32 word"

text \<open>\<open>struct source_location\<close>.\<close>

record source_location =
  file_name :: string
  line :: "32 word"
  column :: "32 word"

text \<open>\<open>struct type_descriptor\<close>; descriptors only hold pointers to it.\<close>

record type_descriptor =
  type_kind :: "16 word"
  type_info :: "16 word"
  type_name :: string

text \<open>
  Every descriptor struct starts with its \<open>struct source_location loc\<close>. The common
  prefix is the record \<open>located\<close>, and each descriptor struct extends it by its own
  members, so that a function over \<open>'a located_scheme\<close> accepts each of them, as the C
  code accepts a \<open>void *\<close> and reads only \<open>loc\<close>. \<open>struct unreachable_data\<close> and
  \<open>struct nonnull_arg_data\<close> have no further member.
\<close>

record located =
  loc :: source_location

record type_mismatch_data = located +
  type :: vaddr
  alignment :: vaddr
  type_check_kind :: "8 word"

record overflow_data = located +
  type :: vaddr

record shift_out_of_bounds_data = located +
  lhs_type :: vaddr
  rhs_type :: vaddr

record out_of_bounds_data = located +
  array_type :: vaddr
  index_type :: vaddr

type_synonym unreachable_data = located

record vla_bound_data = located +
  type :: vaddr

record invalid_value_data = located +
  type :: vaddr

type_synonym nonnull_arg_data = located

record invalid_builtin_data = located +
  kind :: "8 word"

subsection \<open>Environment: console, halt primitive, global flag\<close>

text \<open>
  The preprocessor selects one halt primitive: \<open>panic()\<close> in the kernel
  (\<open>__KERNEL__\<close>), \<open>_ldelf_panic(2)\<close> in the loader (\<open>__LDELF__\<close>) and
  \<open>_utee_panic(TEE_ERROR_GENERIC)\<close> otherwise.
\<close>

datatype build_target = KERNEL | LDELF | TA

datatype tee_result = TEE_ERROR_GENERIC

datatype event =
    EMSG_RAW string
  | Call_panic
  | Call_ldelf_panic vaddr
  | Call_utee_panic tee_result

text \<open>
  The primitives are defined outside the module. The C comment in \<open>ubsan_panic\<close> notes
  that two of them are not declared non-returning, so whether the primitive comes back
  is a parameter of the model.
\<close>

record env =
  target :: build_target
  primitive_returns :: bool

text \<open>\<open>static bool should_panic = true;\<close> and the events produced so far.\<close>

record ubsan_state =
  should_panic :: bool
  trace :: "event list"

definition initial_state :: ubsan_state where
  "initial_state = \<lparr>should_panic = True, trace = []\<rparr>"

text \<open>
  What a call leaves behind: the memory it was given a pointer to, the global state, and
  whether control comes back to the caller (\<open>Some ()\<close>) or not (\<open>None\<close>).
\<close>

datatype 'm outcome = Outcome (data: 'm) (state: ubsan_state) (control: "unit option")

subsection \<open>Primitives the module uses and does not define\<close>

text \<open>
  Modelled from the spec: the macro \<open>BIT32\<close> of util.h, which is not among the sources.
  The spec calls the flag the top bit of the 32-bit column word.
\<close>

definition BIT32 :: "nat \<Rightarrow> 32 word" where
  "BIT32 nr = push_bit nr 1"

definition UBSAN_LOC_REPORTED :: "32 word" where
  "UBSAN_LOC_REPORTED = BIT32 31"

text \<open>
  Modelled from the spec: \<open>atomic_cas_u32\<close> of atomic.h, which is not among the sources.
  The spec describes one atomic compare-and-swap of the whole word: when the word at
  \<open>p\<close> equals the expected value it is replaced by the new value and the call
  succeeds; otherwise the expected value is overwritten by what was found and the call
  fails. The arguments are the word at \<open>p\<close>, the word at \<open>oval\<close> and \<open>nval\<close>; the
  result is the new word at \<open>p\<close>, the new word at \<open>oval\<close> and the success flag.
\<close>

definition atomic_cas_u32 :: "32 word \<Rightarrow> 32 word \<Rightarrow> 32 word \<Rightarrow> 32 word \<times> 32 word \<times> bool" where
  "atomic_cas_u32 p oval nval = (if p = oval then (nval, oval, True) else (p, p, False))"

text \<open>
  Modelled from the spec: the console's formatter, which is not among the sources. The
  spec asks for a line that contains the line number and the column; \<open>PRIu32\<close> is the
  unsigned decimal conversion, without padding. \<open>digit\<close> is only applied below 10.
\<close>

definition digit :: "nat \<Rightarrow> char" where
  "digit n = ''0123456789'' ! n"

text \<open>
  Modelled from the spec: the decimal numeral of a number, most significant digit first
  (the formatter is not among the sources).
\<close>

fun decimal :: "nat \<Rightarrow> string" where
  "decimal n = (if n < 10 then [digit n] else decimal (n div 10) @ [digit (n mod 10)])"

declare decimal.simps [simp del]

text \<open>
  The format string of the one \<open>EMSG_RAW\<close> call,
  \<open>"Undefined behavior %s at %s:%" PRIu32 " col %" PRIu32\<close>, applied to its arguments.
\<close>

definition emsg_format :: "string \<Rightarrow> string \<Rightarrow> 32 word \<Rightarrow> 32 word \<Rightarrow> string" where
  "emsg_format f file l c =
     ''Undefined behavior '' @ f @ '' at '' @ file @ '':'' @ decimal (unat l) @
     '' col '' @ decimal (unat c)"

subsection \<open>\<open>ubsan_panic\<close>\<close>

text \<open>The closing \<open>while (1) ;\<close>: a loop with no exit and no effect.\<close>

partial_function (option) idle_loop :: "unit \<Rightarrow> unit option" where
  "idle_loop u = idle_loop u"

definition halt_call :: "build_target \<Rightarrow> event" where
  "halt_call t = (case t of
       KERNEL \<Rightarrow> Call_panic
     | LDELF \<Rightarrow> Call_ldelf_panic 2
     | TA \<Rightarrow> Call_utee_panic TEE_ERROR_GENERIC)"

definition ubsan_panic :: "env \<Rightarrow> ubsan_state \<Rightarrow> ubsan_state \<times> unit option" where
  "ubsan_panic e s =
     (let s1 = s\<lparr>trace := trace s @ [halt_call (target e)]\<rparr>
      in (s1, if primitive_returns e then idle_loop () else None))"

subsection \<open>\<open>was_already_reported\<close>\<close>

text \<open>
  Reads the column, returns \<open>true\<close> when the flag is set, and otherwise tries to set it
  with one compare-and-swap against the value just read; the answer is the negated
  success of that swap. The result pairs the answer with the location as it is in
  memory afterwards.
\<close>

definition was_already_reported :: "source_location \<Rightarrow> bool \<times> source_location" where
  "was_already_reported l =
     (let c = column l in
      if c AND UBSAN_LOC_REPORTED \<noteq> 0 then (True, l)
      else (case atomic_cas_u32 (column l) c (c OR UBSAN_LOC_REPORTED) of
              (p, oval, swapped) \<Rightarrow> (\<not> swapped, l\<lparr>column := p\<rparr>)))"

subsection \<open>\<open>ubsan_handle_error\<close>\<close>

definition func_prefix :: string where
  "func_prefix = ''__ubsan_handle''"

text \<open>\<open>sizeof(func_prefix)\<close> counts the terminating NUL.\<close>

definition sizeof_func_prefix :: nat where
  "sizeof_func_prefix = length func_prefix + 1"

text \<open>
  \<open>memcmp(f, func_prefix, sizeof(func_prefix) - 1)\<close> is zero exactly when the first 14
  bytes of \<open>f\<close> are the prefix (a shorter C string differs at its NUL at the latest);
  then \<open>f\<close> is advanced by \<open>sizeof(func_prefix)\<close>, that is past the prefix and one more
  character. The function is static and every caller passes its own \<open>__func__\<close>, which
  is longer than that; for a name of exactly the prefix the C pointer would leave the
  string, where \<open>drop\<close> gives the empty string.
\<close>

definition ubsan_handle_error ::
    "env \<Rightarrow> string \<Rightarrow> source_location \<Rightarrow> bool \<Rightarrow> ubsan_state \<Rightarrow> source_location outcome" where
  "ubsan_handle_error e func l panic_flag s =
     (case was_already_reported l of
        (True, l1) \<Rightarrow> Outcome l1 s (Some ())
      | (False, l1) \<Rightarrow>
          (let f = (if take (sizeof_func_prefix - 1) func = func_prefix
                    then drop sizeof_func_prefix func else func);
               s1 = s\<lparr>trace := trace s @
                      [EMSG_RAW (emsg_format f (file_name l1) (line l1)
                                   (column l1 AND NOT UBSAN_LOC_REPORTED))]\<rparr>
           in if panic_flag
              then (case ubsan_panic e s1 of (s2, k) \<Rightarrow> Outcome l1 s2 k)
              else Outcome l1 s1 (Some ())))"

subsection \<open>Entry points\<close>

text \<open>
  \<open>&data->loc\<close>: the callee works on the location inside the descriptor, so what it
  leaves there is written back into the descriptor; nothing else of the descriptor is
  touched.
\<close>

definition at_loc :: "'a located_scheme \<Rightarrow> source_location outcome \<Rightarrow> 'a located_scheme outcome" where
  "at_loc d r = Outcome (d\<lparr>loc := data r\<rparr>) (state r) (control r)"

text \<open>
  The C names start with two underscores, which an Isabelle name cannot; the constants
  drop them, the \<open>__func__\<close> strings keep them. Operand arguments are marked \<open>__unused\<close>
  in the C text.
\<close>

definition ubsan_handle_type_mismatch ::
    "env \<Rightarrow> 'a located_scheme \<Rightarrow> vaddr \<Rightarrow> ubsan_state \<Rightarrow> 'a located_scheme outcome" where
  "ubsan_handle_type_mismatch e d ptr s =
     at_loc d (ubsan_handle_error e ''__ubsan_handle_type_mismatch'' (loc d) (should_panic s) s)"

definition ubsan_handle_type_mismatch_v1 ::
    "env \<Rightarrow> 'a located_scheme \<Rightarrow> vaddr \<Rightarrow> ubsan_state \<Rightarrow> 'a located_scheme outcome" where
  "ubsan_handle_type_mismatch_v1 e d ptr s =
     at_loc d (ubsan_handle_error e ''__ubsan_handle_type_mismatch_v1'' (loc d) (should_panic s) s)"

definition ubsan_handle_add_overflow ::
    "env \<Rightarrow> 'a located_scheme \<Rightarrow> vaddr \<Rightarrow> vaddr \<Rightarrow> ubsan_state \<Rightarrow> 'a located_scheme outcome" where
  "ubsan_handle_add_overflow e d lhs rhs s =
     at_loc d (ubsan_handle_error e ''__ubsan_handle_add_overflow'' (loc d) (should_panic s) s)"

definition ubsan_handle_sub_overflow ::
    "env \<Rightarrow> 'a located_scheme \<Rightarrow> vaddr \<Rightarrow> vaddr \<Rightarrow> ubsan_state \<Rightarrow> 'a located_scheme outcome" where
  "ubsan_handle_sub_overflow e d lhs rhs s =
     at_loc d (ubsan_handle_error e ''__ubsan_handle_sub_overflow'' (loc d) (should_panic s) s)"

definition ubsan_handle_mul_overflow ::
    "env \<Rightarrow> 'a located_scheme \<Rightarrow> vaddr \<Rightarrow> vaddr \<Rightarrow> ubsan_state \<Rightarrow> 'a located_scheme outcome" where
  "ubsan_handle_mul_overflow e d lhs rhs s =
     at_loc d (ubsan_handle_error e ''__ubsan_handle_mul_overflow'' (loc d) (should_panic s) s)"

definition ubsan_handle_negate_overflow ::
    "env \<Rightarrow> 'a located_scheme \<Rightarrow> vaddr \<Rightarrow> ubsan_state \<Rightarrow> 'a located_scheme outcome" where
  "ubsan_handle_negate_overflow e d old_val s =
     at_loc d (ubsan_handle_error e ''__ubsan_handle_negate_overflow'' (loc d) (should_panic s) s)"

definition ubsan_handle_divrem_overflow ::
    "env \<Rightarrow> 'a located_scheme \<Rightarrow> vaddr \<Rightarrow> vaddr \<Rightarrow> ubsan_state \<Rightarrow> 'a located_scheme outcome" where
  "ubsan_handle_divrem_overflow e d lhs rhs s =
     at_loc d (ubsan_handle_error e ''__ubsan_handle_divrem_overflow'' (loc d) (should_panic s) s)"

definition ubsan_handle_pointer_overflow ::
    "env \<Rightarrow> 'a located_scheme \<Rightarrow> vaddr \<Rightarrow> vaddr \<Rightarrow> ubsan_state \<Rightarrow> 'a located_scheme outcome" where
  "ubsan_handle_pointer_overflow e d lhs rhs s =
     at_loc d (ubsan_handle_error e ''__ubsan_handle_pointer_overflow'' (loc d) (should_panic s) s)"

definition ubsan_handle_shift_out_of_bounds ::
    "env \<Rightarrow> 'a located_scheme \<Rightarrow> vaddr \<Rightarrow> vaddr \<Rightarrow> ubsan_state \<Rightarrow> 'a located_scheme outcome" where
  "ubsan_handle_shift_out_of_bounds e d lhs rhs s =
     at_loc d (ubsan_handle_error e ''__ubsan_handle_shift_out_of_bounds'' (loc d) (should_panic s) s)"

definition ubsan_handle_out_of_bounds ::
    "env \<Rightarrow> 'a located_scheme \<Rightarrow> vaddr \<Rightarrow> ubsan_state \<Rightarrow> 'a located_scheme outcome" where
  "ubsan_handle_out_of_bounds e d idx s =
     at_loc d (ubsan_handle_error e ''__ubsan_handle_out_of_bounds'' (loc d) (should_panic s) s)"

text \<open>
  The two non-returning entry points: report with the panic flag \<open>false\<close>, then
  \<open>ubsan_panic()\<close> once the report has returned.
\<close>

definition ubsan_handle_builtin_unreachable ::
    "env \<Rightarrow> 'a located_scheme \<Rightarrow> ubsan_state \<Rightarrow> 'a located_scheme outcome" where
  "ubsan_handle_builtin_unreachable e d s =
     (let r = at_loc d (ubsan_handle_error e ''__ubsan_handle_builtin_unreachable'' (loc d) False s)
      in case control r of
           None \<Rightarrow> r
         | Some u \<Rightarrow> (case ubsan_panic e (state r) of (s2, k) \<Rightarrow> Outcome (data r) s2 k))"

definition ubsan_handle_missing_return ::
    "env \<Rightarrow> 'a located_scheme \<Rightarrow> ubsan_state \<Rightarrow> 'a located_scheme outcome" where
  "ubsan_handle_missing_return e d s =
     (let r = at_loc d (ubsan_handle_error e ''__ubsan_handle_missing_return'' (loc d) False s)
      in case control r of
           None \<Rightarrow> r
         | Some u \<Rightarrow> (case ubsan_panic e (state r) of (s2, k) \<Rightarrow> Outcome (data r) s2 k))"

definition ubsan_handle_vla_bound_not_positive ::
    "env \<Rightarrow> 'a located_scheme \<Rightarrow> vaddr \<Rightarrow> ubsan_state \<Rightarrow> 'a located_scheme outcome" where
  "ubsan_handle_vla_bound_not_positive e d bound s =
     at_loc d (ubsan_handle_error e ''__ubsan_handle_vla_bound_not_positive'' (loc d) (should_panic s) s)"

definition ubsan_handle_load_invalid_value ::
    "env \<Rightarrow> 'a located_scheme \<Rightarrow> vaddr \<Rightarrow> ubsan_state \<Rightarrow> 'a located_scheme outcome" where
  "ubsan_handle_load_invalid_value e d val s =
     at_loc d (ubsan_handle_error e ''__ubsan_handle_load_invalid_value'' (loc d) (should_panic s) s)"

text \<open>The argument \<open>arg_no\<close> exists only for compilers older than GCC 6.\<close>

definition ubsan_handle_nonnull_arg ::
    "env \<Rightarrow> 'a located_scheme \<Rightarrow> vaddr option \<Rightarrow> ubsan_state \<Rightarrow> 'a located_scheme outcome" where
  "ubsan_handle_nonnull_arg e d arg_no s =
     at_loc d (ubsan_handle_error e ''__ubsan_handle_nonnull_arg'' (loc d) (should_panic s) s)"

definition ubsan_handle_invalid_builtin ::
    "env \<Rightarrow> 'a located_scheme \<Rightarrow> ubsan_state \<Rightarrow> 'a located_scheme outcome" where
  "ubsan_handle_invalid_builtin e d s =
     at_loc d (ubsan_handle_error e ''__ubsan_handle_invalid_builtin'' (loc d) (should_panic s) s)"

subsection \<open>The instrumented program as a caller\<close>

text \<open>
  One constructor per entry point, carrying the operand arguments of the call. \<open>invoke\<close>
  is the call itself; \<open>func_name\<close> is the \<open>__func__\<close> of the entry point; \<open>fatal\<close> marks
  the two entry points declared \<open>__noreturn\<close>.
\<close>

datatype call =
    Type_mismatch vaddr
  | Type_mismatch_v1 vaddr
  | Add_overflow vaddr vaddr
  | Sub_overflow vaddr vaddr
  | Mul_overflow vaddr vaddr
  | Negate_overflow vaddr
  | Divrem_overflow vaddr vaddr
  | Pointer_overflow vaddr vaddr
  | Shift_out_of_bounds vaddr vaddr
  | Out_of_bounds vaddr
  | Builtin_unreachable
  | Missing_return
  | Vla_bound_not_positive vaddr
  | Load_invalid_value vaddr
  | Nonnull_arg "vaddr option"
  | Invalid_builtin

fun invoke :: "env \<Rightarrow> call \<Rightarrow> 'a located_scheme \<Rightarrow> ubsan_state \<Rightarrow> 'a located_scheme outcome" where
  "invoke e (Type_mismatch ptr) d s = ubsan_handle_type_mismatch e d ptr s"
| "invoke e (Type_mismatch_v1 ptr) d s = ubsan_handle_type_mismatch_v1 e d ptr s"
| "invoke e (Add_overflow lhs rhs) d s = ubsan_handle_add_overflow e d lhs rhs s"
| "invoke e (Sub_overflow lhs rhs) d s = ubsan_handle_sub_overflow e d lhs rhs s"
| "invoke e (Mul_overflow lhs rhs) d s = ubsan_handle_mul_overflow e d lhs rhs s"
| "invoke e (Negate_overflow old_val) d s = ubsan_handle_negate_overflow e d old_val s"
| "invoke e (Divrem_overflow lhs rhs) d s = ubsan_handle_divrem_overflow e d lhs rhs s"
| "invoke e (Pointer_overflow lhs rhs) d s = ubsan_handle_pointer_overflow e d lhs rhs s"
| "invoke e (Shift_out_of_bounds lhs rhs) d s = ubsan_handle_shift_out_of_bounds e d lhs rhs s"
| "invoke e (Out_of_bounds idx) d s = ubsan_handle_out_of_bounds e d idx s"
| "invoke e Builtin_unreachable d s = ubsan_handle_builtin_unreachable e d s"
| "invoke e Missing_return d s = ubsan_handle_missing_return e d s"
| "invoke e (Vla_bound_not_positive bound) d s = ubsan_handle_vla_bound_not_positive e d bound s"
| "invoke e (Load_invalid_value val) d s = ubsan_handle_load_invalid_value e d val s"
| "invoke e (Nonnull_arg arg_no) d s = ubsan_handle_nonnull_arg e d arg_no s"
| "invoke e Invalid_builtin d s = ubsan_handle_invalid_builtin e d s"

fun func_name :: "call \<Rightarrow> string" where
  "func_name (Type_mismatch ptr) = ''__ubsan_handle_type_mismatch''"
| "func_name (Type_mismatch_v1 ptr) = ''__ubsan_handle_type_mismatch_v1''"
| "func_name (Add_overflow lhs rhs) = ''__ubsan_handle_add_overflow''"
| "func_name (Sub_overflow lhs rhs) = ''__ubsan_handle_sub_overflow''"
| "func_name (Mul_overflow lhs rhs) = ''__ubsan_handle_mul_overflow''"
| "func_name (Negate_overflow old_val) = ''__ubsan_handle_negate_overflow''"
| "func_name (Divrem_overflow lhs rhs) = ''__ubsan_handle_divrem_overflow''"
| "func_name (Pointer_overflow lhs rhs) = ''__ubsan_handle_pointer_overflow''"
| "func_name (Shift_out_of_bounds lhs rhs) = ''__ubsan_handle_shift_out_of_bounds''"
| "func_name (Out_of_bounds idx) = ''__ubsan_handle_out_of_bounds''"
| "func_name Builtin_unreachable = ''__ubsan_handle_builtin_unreachable''"
| "func_name Missing_return = ''__ubsan_handle_missing_return''"
| "func_name (Vla_bound_not_positive bound) = ''__ubsan_handle_vla_bound_not_positive''"
| "func_name (Load_invalid_value val) = ''__ubsan_handle_load_invalid_value''"
| "func_name (Nonnull_arg arg_no) = ''__ubsan_handle_nonnull_arg''"
| "func_name Invalid_builtin = ''__ubsan_handle_invalid_builtin''"

fun fatal :: "call \<Rightarrow> bool" where
  "fatal Builtin_unreachable = True"
| "fatal Missing_return = True"
| "fatal c = False"

text \<open>
  A run of calls on one descriptor, one after the other; a call that does not return
  ends the run, and the calls after it are never made.
\<close>

fun run_calls :: "env \<Rightarrow> call list \<Rightarrow> 'a located_scheme \<Rightarrow> ubsan_state \<Rightarrow> 'a located_scheme outcome" where
  "run_calls e [] d s = Outcome d s (Some ())"
| "run_calls e (c # cs) d s =
     (let r = invoke e c d s
      in case control r of
           None \<Rightarrow> r
         | Some u \<Rightarrow> run_calls e cs (data r) (state r))"

text \<open>The test of line 51, \<open>column & UBSAN_LOC_REPORTED\<close>, as a predicate.\<close>

definition reported :: "source_location \<Rightarrow> bool" where
  "reported l = (column l AND UBSAN_LOC_REPORTED \<noteq> 0)"

text \<open>The location with its flag set, and the column without the flag.\<close>

definition mark :: "source_location \<Rightarrow> source_location" where
  "mark l = l\<lparr>column := column l OR UBSAN_LOC_REPORTED\<rparr>"

definition semantic_column :: "source_location \<Rightarrow> 32 word" where
  "semantic_column l = column l AND NOT UBSAN_LOC_REPORTED"

definition is_emsg :: "event \<Rightarrow> bool" where
  "is_emsg ev = (case ev of EMSG_RAW x \<Rightarrow> True | Call_panic \<Rightarrow> False
                 | Call_ldelf_panic n \<Rightarrow> False | Call_utee_panic r \<Rightarrow> False)"

text \<open>
  The name \<open>ubsan_handle_error\<close> prints for the function name it is given, in closed
  form: 14 is the length of the prefix and 15 is \<open>sizeof(func_prefix)\<close>.
\<close>

definition stripped :: "string \<Rightarrow> string" where
  "stripped func = (if take 14 func = ''__ubsan_handle'' then drop 15 func else func)"

text \<open>
  The short event name of each entry point as the specification words it: the function
  name without \<open>__ubsan_handle\<close> and the underscore after it.
\<close>

fun event_name :: "call \<Rightarrow> string" where
  "event_name (Type_mismatch ptr) = ''type_mismatch''"
| "event_name (Type_mismatch_v1 ptr) = ''type_mismatch_v1''"
| "event_name (Add_overflow lhs rhs) = ''add_overflow''"
| "event_name (Sub_overflow lhs rhs) = ''sub_overflow''"
| "event_name (Mul_overflow lhs rhs) = ''mul_overflow''"
| "event_name (Negate_overflow old_val) = ''negate_overflow''"
| "event_name (Divrem_overflow lhs rhs) = ''divrem_overflow''"
| "event_name (Pointer_overflow lhs rhs) = ''pointer_overflow''"
| "event_name (Shift_out_of_bounds lhs rhs) = ''shift_out_of_bounds''"
| "event_name (Out_of_bounds idx) = ''out_of_bounds''"
| "event_name Builtin_unreachable = ''builtin_unreachable''"
| "event_name Missing_return = ''missing_return''"
| "event_name (Vla_bound_not_positive bound) = ''vla_bound_not_positive''"
| "event_name (Load_invalid_value val) = ''load_invalid_value''"
| "event_name (Nonnull_arg arg_no) = ''nonnull_arg''"
| "event_name Invalid_builtin = ''invalid_builtin''"

subsection \<open>Concurrent callers of \<open>was_already_reported\<close>\<close>

text \<open>
  Several execution contexts may be inside \<open>was_already_reported\<close> for the same location
  at once. Each of them touches the shared column word twice: the load into its local
  \<open>column\<close> (line 49) and the \<open>atomic_cas_u32\<close> (line 54); the test of the flag between
  the two is on the local value. A caller is therefore in one of three places: it has
  not loaded yet, it holds the value it loaded, or it has its answer.
\<close>

datatype caller = Entered | Loaded "32 word" | Answered bool

record race =
  location :: source_location
  callers :: "caller list"

text \<open>
  Lines 51 to 55 for a caller whose local \<open>column\<close> is \<open>c\<close>, on the location as it is in
  memory at that moment: the same text as in \<open>was_already_reported\<close>, where \<open>c\<close> is the
  column just read.
\<close>

definition swap_step :: "32 word \<Rightarrow> source_location \<Rightarrow> bool \<times> source_location" where
  "swap_step c l =
     (if c AND UBSAN_LOC_REPORTED \<noteq> 0 then (True, l)
      else (case atomic_cas_u32 (column l) c (c OR UBSAN_LOC_REPORTED) of
              (p, oval, swapped) \<Rightarrow> (\<not> swapped, l\<lparr>column := p\<rparr>)))"

text \<open>
  One memory access of caller \<open>i\<close>: the load, or the flag test with the compare-and-swap.
  A caller that has its answer, or an index that names no caller, changes nothing.
\<close>

definition caller_step :: "nat \<Rightarrow> race \<Rightarrow> race" where
  "caller_step i r =
     (if i < length (callers r)
      then (case callers r ! i of
              Entered \<Rightarrow> r\<lparr>callers := (callers r)[i := Loaded (column (location r))]\<rparr>
            | Loaded c \<Rightarrow>
                (case swap_step c (location r) of
                   (a, l1) \<Rightarrow> \<lparr>location = l1, callers = (callers r)[i := Answered a]\<rparr>)
            | Answered a \<Rightarrow> r)
      else r)"

text \<open>A schedule names, access by access, the caller that goes next.\<close>

fun interleave :: "nat list \<Rightarrow> race \<Rightarrow> race" where
  "interleave [] r = r"
| "interleave (i # sch) r = interleave sch (caller_step i r)"









section \<open>Basic facts\<close>

lemma idle_loop_Some:
  assumes "idle_loop u = Some y"
  shows False
  by (rule idle_loop.raw_induct [where P = "\<lambda>_ _. False", OF _ assms]) blast

lemma idle_loop_None [simp]: "idle_loop u = None"
  using idle_loop_Some [of u] by (cases "idle_loop u") auto

lemma ubsan_panic_eq:
  "ubsan_panic e s = (s\<lparr>trace := trace s @ [halt_call (target e)]\<rparr>, None)"
  by (simp add: ubsan_panic_def)

lemma flag_bit: "bit UBSAN_LOC_REPORTED n \<longleftrightarrow> n = 31"
  unfolding UBSAN_LOC_REPORTED_def BIT32_def
  by (simp only: bit_push_bit_iff bit_1_iff possible_bit_word) auto

lemma and_flag_zero_iff: "c AND UBSAN_LOC_REPORTED = 0 \<longleftrightarrow> \<not> bit c 31"
proof
  assume "c AND UBSAN_LOC_REPORTED = 0"
  then have "\<not> bit (c AND UBSAN_LOC_REPORTED) 31" by simp
  then show "\<not> bit c 31" by (simp add: bit_and_iff flag_bit)
next
  assume "\<not> bit c 31"
  then show "c AND UBSAN_LOC_REPORTED = 0"
    by (intro bit_eqI) (auto simp add: bit_and_iff flag_bit)
qed

lemma reported_iff: "reported l \<longleftrightarrow> bit (column l) 31"
  by (simp add: reported_def and_flag_zero_iff)

lemma or_flag_absorb: "bit c 31 \<Longrightarrow> c OR UBSAN_LOC_REPORTED = c"
  by (intro bit_eqI) (auto simp add: bit_or_iff flag_bit)

lemma mask_after_or: "\<not> bit c 31 \<Longrightarrow> (c OR UBSAN_LOC_REPORTED) AND NOT UBSAN_LOC_REPORTED = c"
  by (intro bit_eqI) (auto simp add: bit_or_iff bit_and_iff bit_not_iff flag_bit)

lemma bit_or_flag: "bit (c OR UBSAN_LOC_REPORTED) 31"
  by (simp add: bit_or_iff flag_bit)

lemma reported_mark [simp]: "reported (mark l)"
  by (simp add: reported_iff mark_def bit_or_flag)

lemma mark_reported: "reported l \<Longrightarrow> mark l = l"
  by (simp add: reported_iff mark_def or_flag_absorb)

lemma semantic_column_mark: "\<not> reported l \<Longrightarrow> semantic_column (mark l) = column l"
  by (simp add: reported_iff mark_def semantic_column_def mask_after_or)

lemma was_already_reported_set: "reported l \<Longrightarrow> was_already_reported l = (True, l)"
  by (simp add: was_already_reported_def reported_def)

lemma was_already_reported_clear: "\<not> reported l \<Longrightarrow> was_already_reported l = (False, mark l)"
  by (simp add: was_already_reported_def reported_def atomic_cas_u32_def mark_def)

lemma stripped_func_name: "stripped (func_name c) = event_name c"
  by (cases c) (simp_all add: stripped_def)

lemma mark_fields [simp]: "file_name (mark l) = file_name l" "line (mark l) = line l"
  by (simp_all add: mark_def)

lemma sizeof_func_prefix_eq: "sizeof_func_prefix = 15"
  by (simp add: sizeof_func_prefix_def func_prefix_def)

lemma stripped_eq:
  "(if take (sizeof_func_prefix - 1) func = func_prefix then drop sizeof_func_prefix func else func)
     = stripped func"
  by (simp add: sizeof_func_prefix_eq stripped_def func_prefix_def)

lemma ubsan_handle_error_set:
  "reported l \<Longrightarrow> ubsan_handle_error e f l p s = Outcome l s (Some ())"
  by (simp add: ubsan_handle_error_def was_already_reported_set)

lemma ubsan_handle_error_clear:
  "\<not> reported l \<Longrightarrow> ubsan_handle_error e f l p s =
     Outcome (mark l)
       (s\<lparr>trace := trace s @ EMSG_RAW (emsg_format (stripped f) (file_name l) (line l) (column l))
                 # (if p then [halt_call (target e)] else [])\<rparr>)
       (if p then None else Some ())"
  using semantic_column_mark [of l]
  unfolding ubsan_handle_error_def stripped_eq
  by (simp add: was_already_reported_clear ubsan_panic_eq semantic_column_def)

lemmas handler_defs =
  ubsan_handle_type_mismatch_def ubsan_handle_type_mismatch_v1_def
  ubsan_handle_add_overflow_def ubsan_handle_sub_overflow_def ubsan_handle_mul_overflow_def
  ubsan_handle_negate_overflow_def ubsan_handle_divrem_overflow_def
  ubsan_handle_pointer_overflow_def ubsan_handle_shift_out_of_bounds_def
  ubsan_handle_out_of_bounds_def ubsan_handle_builtin_unreachable_def
  ubsan_handle_missing_return_def ubsan_handle_vla_bound_not_positive_def
  ubsan_handle_load_invalid_value_def ubsan_handle_nonnull_arg_def
  ubsan_handle_invalid_builtin_def

lemma invoke_nonfatal:
  "\<not> fatal c \<Longrightarrow> invoke e c d s =
     at_loc d (ubsan_handle_error e (func_name c) (loc d) (should_panic s) s)"
  by (cases c) (simp_all add: handler_defs)

lemma invoke_fatal:
  "fatal c \<Longrightarrow> invoke e c d s =
     (let r = at_loc d (ubsan_handle_error e (func_name c) (loc d) False s)
      in case control r of
           None \<Rightarrow> r
         | Some u \<Rightarrow> (case ubsan_panic e (state r) of (s2, k) \<Rightarrow> Outcome (data r) s2 k))"
  by (cases c) (simp_all add: handler_defs)

lemma invoke_set_nonfatal:
  "reported (loc d) \<Longrightarrow> \<not> fatal c \<Longrightarrow> invoke e c d s = Outcome d s (Some ())"
  by (simp add: invoke_nonfatal ubsan_handle_error_set at_loc_def)

lemma invoke_set_fatal:
  "reported (loc d) \<Longrightarrow> fatal c \<Longrightarrow>
     invoke e c d s = Outcome d (s\<lparr>trace := trace s @ [halt_call (target e)]\<rparr>) None"
  by (simp add: invoke_fatal ubsan_handle_error_set at_loc_def ubsan_panic_eq)

lemma invoke_clear:
  "\<not> reported (loc d) \<Longrightarrow> invoke e c d s =
     Outcome (d\<lparr>loc := mark (loc d)\<rparr>)
       (s\<lparr>trace := trace s @
            EMSG_RAW (emsg_format (event_name c) (file_name (loc d)) (line (loc d)) (column (loc d)))
            # (if fatal c \<or> should_panic s then [halt_call (target e)] else [])\<rparr>)
       (if fatal c \<or> should_panic s then None else Some ())"
  by (cases "fatal c")
     (simp_all add: invoke_nonfatal invoke_fatal ubsan_handle_error_clear at_loc_def
        ubsan_panic_eq stripped_func_name)

lemma run_calls_set_nonfatal:
  "reported (loc d) \<Longrightarrow> list_all (\<lambda>x. \<not> fatal x) cs \<Longrightarrow> run_calls e cs d s = Outcome d s (Some ())"
  by (induction cs) (simp_all add: invoke_set_nonfatal)

lemma run_calls_set_data: "reported (loc d) \<Longrightarrow> data (run_calls e cs d s) = d"
proof (induction cs arbitrary: s)
  case Nil
  then show ?case by simp
next
  case (Cons c cs)
  then show ?case
    by (cases "fatal c") (simp_all add: invoke_set_nonfatal invoke_set_fatal)
qed

lemma run_calls_set_emsg:
  "reported (loc d) \<Longrightarrow> filter is_emsg (trace (state (run_calls e cs d s))) = filter is_emsg (trace s)"
proof (induction cs arbitrary: s)
  case Nil
  then show ?case by simp
next
  case (Cons c cs)
  then show ?case
    by (cases "fatal c")
       (simp_all add: invoke_set_nonfatal invoke_set_fatal is_emsg_def halt_call_def
          split: build_target.splits)
qed

lemma halt_call_not_emsg [simp]: "\<not> is_emsg (halt_call t)"
  by (simp add: is_emsg_def halt_call_def split: build_target.splits)

lemma halt_call_neq_emsg [simp]: "halt_call t \<noteq> EMSG_RAW x" "EMSG_RAW x \<noteq> halt_call t"
  by (simp_all add: halt_call_def split: build_target.splits)

lemma emsg_is_emsg [simp]: "is_emsg (EMSG_RAW x)"
  by (simp add: is_emsg_def)

lemma invoke_set:
  "reported (loc d) \<Longrightarrow> invoke e c d s =
     Outcome d (s\<lparr>trace := trace s @ (if fatal c then [halt_call (target e)] else [])\<rparr>)
       (if fatal c then None else Some ())"
  by (cases "fatal c") (simp_all add: invoke_set_nonfatal invoke_set_fatal)

lemma func_name_prefix: "take 14 (func_name c) = ''__ubsan_handle'' \<and> drop 15 (func_name c) = event_name c"
  by (cases c) simp_all

lemma invoke_column: "column (loc (data (invoke e c d s))) = column (loc d) OR UBSAN_LOC_REPORTED"
proof (cases "reported (loc d)")
  case True
  then show ?thesis
    by (simp add: invoke_set or_flag_absorb reported_iff)
next
  case False
  then show ?thesis
    by (simp add: invoke_clear mark_def)
qed

lemma fatal_iff_func_name:
  "fatal c \<longleftrightarrow> func_name c = ''__ubsan_handle_builtin_unreachable''
              \<or> func_name c = ''__ubsan_handle_missing_return''"
  by (cases c) simp_all

lemma invoke_same_entry:
  assumes "func_name c = func_name c'"
  shows "invoke e c d s = invoke e c' d s"
proof -
  from assms have f: "fatal c = fatal c'"
    by (simp add: fatal_iff_func_name)
  from assms have n: "event_name c = event_name c'"
    using func_name_prefix [of c] func_name_prefix [of c'] by simp
  show ?thesis
  proof (cases "reported (loc d)")
    case True
    then show ?thesis by (simp add: invoke_set f)
  next
    case False
    then show ?thesis by (simp add: invoke_clear f n)
  qed
qed











lemma length_caller_step [simp]: "length (callers (caller_step i r)) = length (callers r)"
  by (simp add: caller_step_def split: caller.splits prod.splits)

lemma length_interleave [simp]: "length (callers (interleave sch r)) = length (callers r)"
  by (induction sch arbitrary: r) simp_all

















section \<open>Claims\<close>

text \<open>
  C1 (idempotence of reporting). With \<open>should_panic\<close> false and only non-fatal entry
  points called: a call on a location whose reported flag is set leaves the descriptor
  and the state as they were (no line, no halt) and returns; a run of one or more calls
  on one descriptor ends exactly as its first call alone does; and on a location whose
  flag is clear that first call emits exactly one line, sets the flag and returns, the
  column with the flag masked off being the column before.
\<close>

theorem idempotent_reporting:
  assumes "\<not> should_panic s" and "\<not> fatal c" and "list_all (\<lambda>x. \<not> fatal x) cs"
  shows "(reported (loc d) \<longrightarrow> invoke e c d s = Outcome d s (Some ()))
       \<and> run_calls e (c # cs) d s = invoke e c d s
       \<and> (\<not> reported (loc d) \<longrightarrow>
            invoke e c d s =
              Outcome (d\<lparr>loc := (loc d)\<lparr>column := column (loc d) OR UBSAN_LOC_REPORTED\<rparr>\<rparr>)
                (s\<lparr>trace := trace s @
                   [EMSG_RAW (emsg_format (event_name c) (file_name (loc d)) (line (loc d))
                      (column (loc d)))]\<rparr>)
                (Some ())
          \<and> (column (loc d) OR UBSAN_LOC_REPORTED) AND NOT UBSAN_LOC_REPORTED = column (loc d))"
proof (cases "reported (loc d)")
  case True
  with assms show ?thesis
    by (simp add: invoke_set_nonfatal run_calls_set_nonfatal)
next
  case False
  have m: "reported (loc (d\<lparr>loc := mark (loc d)\<rparr>))" by simp
  from False assms show ?thesis
    using run_calls_set_nonfatal [OF m assms(3)] semantic_column_mark [OF False]
    by (simp add: invoke_clear mark_def semantic_column_def)
qed

theorem idempotent_reporting_witness:
  "run_calls \<lparr>target = KERNEL, primitive_returns = False\<rparr>
     [Add_overflow 1 2, Add_overflow 3 4, Sub_overflow 0 0]
     \<lparr>loc = \<lparr>file_name = ''a.c'', line = 10, column = 5\<rparr>, overflow_data.type = 0\<rparr>
     \<lparr>should_panic = False, trace = []\<rparr>
   = Outcome \<lparr>loc = \<lparr>file_name = ''a.c'', line = 10, column = 0x80000005\<rparr>, overflow_data.type = 0\<rparr>
       \<lparr>should_panic = False, trace = [EMSG_RAW ''Undefined behavior add_overflow at a.c:10 col 5'']\<rparr>
       (Some ())"
proof -
  let ?e = "\<lparr>target = KERNEL, primitive_returns = False\<rparr>"
  let ?d = "\<lparr>loc = \<lparr>file_name = ''a.c'', line = 10, column = 5\<rparr>, overflow_data.type = 0\<rparr>"
  let ?s = "\<lparr>should_panic = False, trace = []\<rparr>"
  have policy: "\<not> should_panic ?s" by simp
  have kinds: "\<not> fatal (Add_overflow 1 2)"
    "list_all (\<lambda>x. \<not> fatal x) [Add_overflow 3 4, Sub_overflow 0 0]" by simp_all
  have fresh: "\<not> reported (loc ?d)"
    by (simp add: reported_def UBSAN_LOC_REPORTED_def BIT32_def)
  note t = idempotent_reporting [OF policy kinds, of ?d ?e]
  note run = t [THEN conjunct2, THEN conjunct1]
  note first = t [THEN conjunct2, THEN conjunct2, THEN mp, OF fresh, THEN conjunct1]
  show ?thesis
    unfolding run first
    by (simp add: UBSAN_LOC_REPORTED_def BIT32_def emsg_format_def decimal.simps digit_def)
qed

text \<open>
  C2 (the fatal kinds never return). For every build target, whether or not the halt
  primitive comes back, every descriptor (reported before or not) and every value of
  \<open>should_panic\<close>: \<open>__ubsan_handle_builtin_unreachable\<close> and
  \<open>__ubsan_handle_missing_return\<close> do not return to their caller, and the last thing they
  do is call the halt primitive, after the one line of a first report or after no line
  at all. \<open>ubsan_panic\<close> itself calls the primitive and never returns, the idle loop
  standing behind a primitive that comes back.
\<close>

theorem fatal_entry_points_never_return:
  "control (ubsan_handle_builtin_unreachable e d s) = None
   \<and> control (ubsan_handle_missing_return e d s) = None
   \<and> trace (state (ubsan_handle_builtin_unreachable e d s)) =
       trace s @
       (if reported (loc d) then []
        else [EMSG_RAW (emsg_format ''builtin_unreachable'' (file_name (loc d)) (line (loc d))
                (column (loc d)))]) @
       [halt_call (target e)]
   \<and> trace (state (ubsan_handle_missing_return e d s)) =
       trace s @
       (if reported (loc d) then []
        else [EMSG_RAW (emsg_format ''missing_return'' (file_name (loc d)) (line (loc d))
                (column (loc d)))]) @
       [halt_call (target e)]
   \<and> snd (ubsan_panic e s) = None
   \<and> trace (fst (ubsan_panic e s)) = trace s @ [halt_call (target e)]"
proof (cases "reported (loc d)")
  case True
  then show ?thesis
    using invoke_set [OF True, of e Builtin_unreachable s]
      invoke_set [OF True, of e Missing_return s]
    by (simp add: ubsan_panic_eq)
next
  case False
  then show ?thesis
    using invoke_clear [OF False, of e Builtin_unreachable s]
      invoke_clear [OF False, of e Missing_return s]
    by (simp add: ubsan_panic_eq)
qed

theorem fatal_entry_points_never_return_witness:
  "control (ubsan_handle_missing_return \<lparr>target = TA, primitive_returns = True\<rparr>
      \<lparr>loc = \<lparr>file_name = ''a.c'', line = 10, column = 0x80000005\<rparr>\<rparr>
      \<lparr>should_panic = False, trace = []\<rparr>) = None
   \<and> trace (state (ubsan_handle_missing_return \<lparr>target = TA, primitive_returns = True\<rparr>
      \<lparr>loc = \<lparr>file_name = ''a.c'', line = 10, column = 0x80000005\<rparr>\<rparr>
      \<lparr>should_panic = False, trace = []\<rparr>)) = [Call_utee_panic TEE_ERROR_GENERIC]
   \<and> trace (state (ubsan_handle_builtin_unreachable \<lparr>target = LDELF, primitive_returns = True\<rparr>
      \<lparr>loc = \<lparr>file_name = ''a.c'', line = 10, column = 5\<rparr>\<rparr>
      \<lparr>should_panic = False, trace = []\<rparr>)) =
       [EMSG_RAW ''Undefined behavior builtin_unreachable at a.c:10 col 5'', Call_ldelf_panic 2]"
proof -
  note a = fatal_entry_points_never_return [of "\<lparr>target = TA, primitive_returns = True\<rparr>"
      "\<lparr>loc = \<lparr>file_name = ''a.c'', line = 10, column = 0x80000005\<rparr>\<rparr>"
      "\<lparr>should_panic = False, trace = []\<rparr>"]
  note b = fatal_entry_points_never_return [of "\<lparr>target = LDELF, primitive_returns = True\<rparr>"
      "\<lparr>loc = \<lparr>file_name = ''a.c'', line = 10, column = 5\<rparr>\<rparr>"
      "\<lparr>should_panic = False, trace = []\<rparr>"]
  note a1 = a [THEN conjunct2, THEN conjunct1]
  note a2 = a [THEN conjunct2, THEN conjunct2, THEN conjunct2, THEN conjunct1]
  note b1 = b [THEN conjunct2, THEN conjunct2, THEN conjunct1]
  show ?thesis
    unfolding a1 a2 b1
    by (simp add: reported_def UBSAN_LOC_REPORTED_def BIT32_def halt_call_def emsg_format_def
        decimal.simps digit_def)
qed

text \<open>
  C3 (non-fatal kinds halt exactly when the policy says so). A non-fatal entry point
  called on a location whose flag is clear sets the flag and emits its one line; with
  \<open>should_panic\<close> true it then calls the halt primitive and does not return, with
  \<open>should_panic\<close> false it calls no halt primitive and returns.
\<close>

theorem non_fatal_halts_iff_policy:
  assumes "\<not> fatal c" and "\<not> reported (loc d)"
  shows "invoke e c d s =
           Outcome (d\<lparr>loc := (loc d)\<lparr>column := column (loc d) OR UBSAN_LOC_REPORTED\<rparr>\<rparr>)
             (s\<lparr>trace := trace s @
                EMSG_RAW (emsg_format (event_name c) (file_name (loc d)) (line (loc d))
                   (column (loc d)))
                # (if should_panic s then [halt_call (target e)] else [])\<rparr>)
             (if should_panic s then None else Some ())
       \<and> (halt_call (target e) \<in> set (drop (length (trace s)) (trace (state (invoke e c d s))))
            \<longleftrightarrow> should_panic s)
       \<and> (control (invoke e c d s) = None \<longleftrightarrow> should_panic s)"
  using assms by (simp add: invoke_clear mark_def)

theorem non_fatal_halts_iff_policy_witness:
  "invoke \<lparr>target = KERNEL, primitive_returns = False\<rparr> (Shift_out_of_bounds 1 40)
     \<lparr>loc = \<lparr>file_name = ''a.c'', line = 10, column = 5\<rparr>, lhs_type = 0, rhs_type = 0\<rparr>
     \<lparr>should_panic = True, trace = []\<rparr>
   = Outcome \<lparr>loc = \<lparr>file_name = ''a.c'', line = 10, column = 0x80000005\<rparr>, lhs_type = 0, rhs_type = 0\<rparr>
       \<lparr>should_panic = True,
          trace = [EMSG_RAW ''Undefined behavior shift_out_of_bounds at a.c:10 col 5'', Call_panic]\<rparr>
       None
   \<and> invoke \<lparr>target = KERNEL, primitive_returns = False\<rparr> (Shift_out_of_bounds 1 40)
     \<lparr>loc = \<lparr>file_name = ''a.c'', line = 10, column = 5\<rparr>, lhs_type = 0, rhs_type = 0\<rparr>
     \<lparr>should_panic = False, trace = []\<rparr>
   = Outcome \<lparr>loc = \<lparr>file_name = ''a.c'', line = 10, column = 0x80000005\<rparr>, lhs_type = 0, rhs_type = 0\<rparr>
       \<lparr>should_panic = False,
          trace = [EMSG_RAW ''Undefined behavior shift_out_of_bounds at a.c:10 col 5'']\<rparr>
       (Some ())"
proof -
  let ?e = "\<lparr>target = KERNEL, primitive_returns = False\<rparr>"
  let ?d = "\<lparr>loc = \<lparr>file_name = ''a.c'', line = 10, column = 5\<rparr>, lhs_type = 0, rhs_type = 0\<rparr>"
  have kind: "\<not> fatal (Shift_out_of_bounds 1 40)" by simp
  have fresh: "\<not> reported (loc ?d)"
    by (simp add: reported_def UBSAN_LOC_REPORTED_def BIT32_def)
  note t = non_fatal_halts_iff_policy [OF kind fresh, of ?e, THEN conjunct1]
  note on = t [of "\<lparr>should_panic = True, trace = []\<rparr>"]
  note off = t [of "\<lparr>should_panic = False, trace = []\<rparr>"]
  show ?thesis
    unfolding on off
    by (simp add: UBSAN_LOC_REPORTED_def BIT32_def halt_call_def emsg_format_def
        decimal.simps digit_def)
qed




text \<open>
  C5 (frame of the first report). For a descriptor whose location has the flag clear
  (\<open>column & UBSAN_LOC_REPORTED\<close> is zero): \<open>was_already_reported\<close> answers \<open>false\<close> and
  leaves the location with exactly the flag added to its column; so does
  \<open>ubsan_handle_error\<close>, for every function name and panic flag; and every entry point
  returns the descriptor with that one change. Masking the flag off gives the old
  column back; file name, line, the descriptor's other members and \<open>should_panic\<close>
  are as before.
\<close>

theorem first_report_sets_only_the_flag:
  assumes "column (loc d) AND UBSAN_LOC_REPORTED = 0"
  shows "was_already_reported (loc d) =
           (False, (loc d)\<lparr>column := column (loc d) OR UBSAN_LOC_REPORTED\<rparr>)
       \<and> data (ubsan_handle_error e f (loc d) p s) =
           (loc d)\<lparr>column := column (loc d) OR UBSAN_LOC_REPORTED\<rparr>
       \<and> data (invoke e c d s) =
           d\<lparr>loc := (loc d)\<lparr>column := column (loc d) OR UBSAN_LOC_REPORTED\<rparr>\<rparr>
       \<and> column (loc (data (invoke e c d s))) AND NOT UBSAN_LOC_REPORTED = column (loc d)
       \<and> file_name (loc (data (invoke e c d s))) = file_name (loc d)
       \<and> line (loc (data (invoke e c d s))) = line (loc d)
       \<and> located.more (data (invoke e c d s)) = located.more d
       \<and> should_panic (state (invoke e c d s)) = should_panic s"
proof -
  from assms have fresh: "\<not> reported (loc d)"
    by (simp add: reported_def)
  then show ?thesis
    using semantic_column_mark [OF fresh]
    by (simp add: was_already_reported_clear ubsan_handle_error_clear invoke_clear mark_def
        semantic_column_def)
qed

theorem first_report_sets_only_the_flag_witness:
  "data (invoke \<lparr>target = KERNEL, primitive_returns = False\<rparr> (Type_mismatch 3)
     \<lparr>loc = \<lparr>file_name = ''a.c'', line = 10, column = 5\<rparr>,
        type_mismatch_data.type = 0x1000, alignment = 4, type_check_kind = 1\<rparr>
     \<lparr>should_panic = True, trace = []\<rparr>)
   = \<lparr>loc = \<lparr>file_name = ''a.c'', line = 10, column = 0x80000005\<rparr>,
        type_mismatch_data.type = 0x1000, alignment = 4, type_check_kind = 1\<rparr>
   \<and> (0x80000005 :: 32 word) AND NOT UBSAN_LOC_REPORTED = 5"
proof -
  let ?d = "\<lparr>loc = \<lparr>file_name = ''a.c'', line = 10, column = 5\<rparr>,
        type_mismatch_data.type = 0x1000, alignment = 4, type_check_kind = 1\<rparr>"
  have clear: "column (loc ?d) AND UBSAN_LOC_REPORTED = 0"
    by (simp add: UBSAN_LOC_REPORTED_def BIT32_def)
  note t = first_report_sets_only_the_flag [OF clear,
      of "\<lparr>target = KERNEL, primitive_returns = False\<rparr>" _ _
         "\<lparr>should_panic = True, trace = []\<rparr>" "Type_mismatch 3"]
  note a = t [THEN conjunct2, THEN conjunct2, THEN conjunct1]
  show ?thesis
    unfolding a
    by (simp add: UBSAN_LOC_REPORTED_def BIT32_def)
qed

text \<open>
  C6 (content of the diagnostic line). The first report of a location, through any entry
  point, appends to the console exactly one line, followed only by the call of the halt
  primitive when there is one. The line is \<open>Undefined behavior\<close>, the short event name,
  \<open>at\<close>, the file name, a colon, the line number in decimal, \<open>col\<close>, and in decimal the
  column as stored after the report with the flag masked off, which is the column
  before the report. The short name is the entry point's \<open>__func__\<close>, which starts
  with \<open>__ubsan_handle\<close>, without its first 15 characters.
\<close>

theorem diagnostic_line_content:
  assumes "\<not> reported (loc d)"
  shows "trace (state (invoke e c d s)) =
           trace s @
           EMSG_RAW (''Undefined behavior '' @ event_name c @ '' at '' @ file_name (loc d) @
                     '':'' @ decimal (unat (line (loc d))) @ '' col '' @
                     decimal (unat (column (loc (data (invoke e c d s))) AND NOT UBSAN_LOC_REPORTED)))
           # (if fatal c \<or> should_panic s then [halt_call (target e)] else [])
       \<and> length (filter is_emsg (drop (length (trace s)) (trace (state (invoke e c d s))))) = 1
       \<and> take 14 (func_name c) = ''__ubsan_handle''
       \<and> event_name c = drop 15 (func_name c)
       \<and> column (loc (data (invoke e c d s))) AND NOT UBSAN_LOC_REPORTED = column (loc d)"
  using assms semantic_column_mark [OF assms] func_name_prefix [of c]
  by (simp add: invoke_clear emsg_format_def mark_def semantic_column_def)

theorem diagnostic_line_content_witness:
  "trace (state (invoke \<lparr>target = KERNEL, primitive_returns = False\<rparr> (Out_of_bounds 7)
     \<lparr>loc = \<lparr>file_name = ''core/arch/arm/kernel/boot.c'', line = 1024, column = 17\<rparr>,
        array_type = 0, index_type = 0\<rparr>
     \<lparr>should_panic = False, trace = []\<rparr>))
   = [EMSG_RAW ''Undefined behavior out_of_bounds at core/arch/arm/kernel/boot.c:1024 col 17'']"
proof -
  let ?d = "\<lparr>loc = \<lparr>file_name = ''core/arch/arm/kernel/boot.c'', line = 1024, column = 17\<rparr>,
        array_type = 0, index_type = 0\<rparr>"
  have fresh: "\<not> reported (loc ?d)"
    by (simp add: reported_def UBSAN_LOC_REPORTED_def BIT32_def)
  note t = diagnostic_line_content [OF fresh,
      of "\<lparr>target = KERNEL, primitive_returns = False\<rparr>" "Out_of_bounds 7"
         "\<lparr>should_panic = False, trace = []\<rparr>"]
  note a = t [THEN conjunct1]
  note b = t [THEN conjunct2, THEN conjunct2, THEN conjunct2, THEN conjunct2]
  show ?thesis
    unfolding a b
    by (simp add: decimal.simps digit_def)
qed

text \<open>
  C7 (legacy and current type-mismatch entry points). As stated, with the same emitted
  line for both, the claim fails: each entry point passes its own \<open>__func__\<close>, so on a
  fresh location one prints \<open>type_mismatch\<close> and the other \<open>type_mismatch_v1\<close>.
\<close>

theorem type_mismatch_v1_same_line_counterexample:
  "trace (state (ubsan_handle_type_mismatch \<lparr>target = KERNEL, primitive_returns = False\<rparr>
      \<lparr>loc = \<lparr>file_name = ''a.c'', line = 10, column = 5\<rparr>,
         type_mismatch_data.type = 0, alignment = 4, type_check_kind = 0\<rparr>
      0 \<lparr>should_panic = True, trace = []\<rparr>))
     = [EMSG_RAW ''Undefined behavior type_mismatch at a.c:10 col 5'', Call_panic]
   \<and> trace (state (ubsan_handle_type_mismatch_v1 \<lparr>target = KERNEL, primitive_returns = False\<rparr>
      \<lparr>loc = \<lparr>file_name = ''a.c'', line = 10, column = 5\<rparr>,
         type_mismatch_data.type = 0, alignment = 4, type_check_kind = 0\<rparr>
      0 \<lparr>should_panic = True, trace = []\<rparr>))
     = [EMSG_RAW ''Undefined behavior type_mismatch_v1 at a.c:10 col 5'', Call_panic]
   \<and> ubsan_handle_type_mismatch \<lparr>target = KERNEL, primitive_returns = False\<rparr>
      \<lparr>loc = \<lparr>file_name = ''a.c'', line = 10, column = 5\<rparr>,
         type_mismatch_data.type = 0, alignment = 4, type_check_kind = 0\<rparr>
      0 \<lparr>should_panic = True, trace = []\<rparr>
     \<noteq> ubsan_handle_type_mismatch_v1 \<lparr>target = KERNEL, primitive_returns = False\<rparr>
      \<lparr>loc = \<lparr>file_name = ''a.c'', line = 10, column = 5\<rparr>,
         type_mismatch_data.type = 0, alignment = 4, type_check_kind = 0\<rparr>
      0 \<lparr>should_panic = True, trace = []\<rparr>"
proof -
  let ?e = "\<lparr>target = KERNEL, primitive_returns = False\<rparr>"
  let ?d = "\<lparr>loc = \<lparr>file_name = ''a.c'', line = 10, column = 5\<rparr>,
         type_mismatch_data.type = 0, alignment = 4, type_check_kind = 0\<rparr>"
  let ?s = "\<lparr>should_panic = True, trace = []\<rparr>"
  have fresh: "\<not> reported (loc ?d)"
    by (simp add: reported_def UBSAN_LOC_REPORTED_def BIT32_def)
  have a: "trace (state (ubsan_handle_type_mismatch ?e ?d 0 ?s))
      = [EMSG_RAW ''Undefined behavior type_mismatch at a.c:10 col 5'', Call_panic]"
    using invoke_clear [OF fresh, of ?e "Type_mismatch 0" ?s]
    by (simp add: emsg_format_def decimal.simps digit_def halt_call_def)
  have b: "trace (state (ubsan_handle_type_mismatch_v1 ?e ?d 0 ?s))
      = [EMSG_RAW ''Undefined behavior type_mismatch_v1 at a.c:10 col 5'', Call_panic]"
    using invoke_clear [OF fresh, of ?e "Type_mismatch_v1 0" ?s]
    by (simp add: emsg_format_def decimal.simps digit_def halt_call_def)
  have "trace (state (ubsan_handle_type_mismatch ?e ?d 0 ?s))
      \<noteq> trace (state (ubsan_handle_type_mismatch_v1 ?e ?d 0 ?s))"
    unfolding a b by simp
  then have c: "ubsan_handle_type_mismatch ?e ?d 0 ?s \<noteq> ubsan_handle_type_mismatch_v1 ?e ?d 0 ?s"
    by auto
  from a b c show ?thesis by blast
qed

text \<open>
  C7, amended. Both entry points call \<open>ubsan_handle_error\<close> on the descriptor's location
  with \<open>should_panic\<close>, whatever their second argument. From the same descriptor and
  state they leave the same descriptor, make the same halt decision and leave
  \<open>should_panic\<close> alone; on a location already reported they are equal outright; on a
  fresh one each emits one line with the same file name, line and column and the same
  halt call after it, the lines differing in the event name only.
\<close>

theorem type_mismatch_variants_differ_only_in_name:
  "ubsan_handle_type_mismatch e d ptr s =
     at_loc d (ubsan_handle_error e ''__ubsan_handle_type_mismatch'' (loc d) (should_panic s) s)
   \<and> ubsan_handle_type_mismatch_v1 e d ptr' s =
     at_loc d (ubsan_handle_error e ''__ubsan_handle_type_mismatch_v1'' (loc d) (should_panic s) s)
   \<and> data (ubsan_handle_type_mismatch e d ptr s) = data (ubsan_handle_type_mismatch_v1 e d ptr' s)
   \<and> control (ubsan_handle_type_mismatch e d ptr s) =
       control (ubsan_handle_type_mismatch_v1 e d ptr' s)
   \<and> should_panic (state (ubsan_handle_type_mismatch e d ptr s)) =
       should_panic (state (ubsan_handle_type_mismatch_v1 e d ptr' s))
   \<and> (reported (loc d) \<longrightarrow>
        ubsan_handle_type_mismatch e d ptr s = ubsan_handle_type_mismatch_v1 e d ptr' s)
   \<and> (\<not> reported (loc d) \<longrightarrow>
        trace (state (ubsan_handle_type_mismatch e d ptr s)) =
          trace s @
          EMSG_RAW (emsg_format ''type_mismatch'' (file_name (loc d)) (line (loc d)) (column (loc d)))
          # (if should_panic s then [halt_call (target e)] else [])
      \<and> trace (state (ubsan_handle_type_mismatch_v1 e d ptr' s)) =
          trace s @
          EMSG_RAW (emsg_format ''type_mismatch_v1'' (file_name (loc d)) (line (loc d)) (column (loc d)))
          # (if should_panic s then [halt_call (target e)] else []))"
proof (cases "reported (loc d)")
  case True
  then show ?thesis
    using invoke_set [OF True, of e "Type_mismatch ptr" s]
      invoke_set [OF True, of e "Type_mismatch_v1 ptr'" s]
    by (simp add: ubsan_handle_type_mismatch_def ubsan_handle_type_mismatch_v1_def)
next
  case False
  then show ?thesis
    using invoke_clear [OF False, of e "Type_mismatch ptr" s]
      invoke_clear [OF False, of e "Type_mismatch_v1 ptr'" s]
    by (simp add: ubsan_handle_type_mismatch_def ubsan_handle_type_mismatch_v1_def)
qed

theorem type_mismatch_variants_differ_only_in_name_witness:
  "ubsan_handle_type_mismatch \<lparr>target = KERNEL, primitive_returns = False\<rparr>
      \<lparr>loc = \<lparr>file_name = ''a.c'', line = 10, column = 0x80000005\<rparr>,
         type_mismatch_data.type = 0, alignment = 4, type_check_kind = 0\<rparr>
      3 \<lparr>should_panic = True, trace = []\<rparr>
   = ubsan_handle_type_mismatch_v1 \<lparr>target = KERNEL, primitive_returns = False\<rparr>
      \<lparr>loc = \<lparr>file_name = ''a.c'', line = 10, column = 0x80000005\<rparr>,
         type_mismatch_data.type = 0, alignment = 4, type_check_kind = 0\<rparr>
      7 \<lparr>should_panic = True, trace = []\<rparr>
   \<and> trace (state (ubsan_handle_type_mismatch_v1 \<lparr>target = KERNEL, primitive_returns = False\<rparr>
      \<lparr>loc = \<lparr>file_name = ''a.c'', line = 10, column = 5\<rparr>,
         type_mismatch_data.type = 0, alignment = 4, type_check_kind = 0\<rparr>
      7 \<lparr>should_panic = True, trace = []\<rparr>))
     = [EMSG_RAW ''Undefined behavior type_mismatch_v1 at a.c:10 col 5'', Call_panic]"
proof -
  let ?e = "\<lparr>target = KERNEL, primitive_returns = False\<rparr>"
  let ?d1 = "\<lparr>loc = \<lparr>file_name = ''a.c'', line = 10, column = 0x80000005\<rparr>,
         type_mismatch_data.type = 0, alignment = 4, type_check_kind = 0\<rparr>"
  let ?d0 = "\<lparr>loc = \<lparr>file_name = ''a.c'', line = 10, column = 5\<rparr>,
         type_mismatch_data.type = 0, alignment = 4, type_check_kind = 0\<rparr>"
  let ?s = "\<lparr>should_panic = True, trace = []\<rparr>"
  have set: "reported (loc ?d1)"
    by (simp add: reported_def UBSAN_LOC_REPORTED_def BIT32_def)
  have fresh: "\<not> reported (loc ?d0)"
    by (simp add: reported_def UBSAN_LOC_REPORTED_def BIT32_def)
  note t1 = type_mismatch_variants_differ_only_in_name [of ?e ?d1 3 ?s 7]
  note t0 = type_mismatch_variants_differ_only_in_name [of ?e ?d0 3 ?s 7]
  note same = t1 [THEN conjunct2, THEN conjunct2, THEN conjunct2, THEN conjunct2,
      THEN conjunct2, THEN conjunct1, THEN mp, OF set]
  note line = t0 [THEN conjunct2, THEN conjunct2, THEN conjunct2, THEN conjunct2,
      THEN conjunct2, THEN conjunct2, THEN mp, OF fresh, THEN conjunct2]
  show ?thesis
    unfolding line
    using same by (simp add: halt_call_def emsg_format_def decimal.simps digit_def)
qed

text \<open>
  C8 (operands do not interfere). Two calls of the same entry point, whatever their
  operand arguments, give the same outcome: descriptor, console, halt decision and
  control. This is stated once for any two calls with the same function name, and once
  for each entry point that takes operand arguments. A handler is given the operand
  words only, and no memory behind them.
\<close>

theorem operand_values_are_ignored:
  "(func_name c = func_name c' \<longrightarrow> invoke e c d s = invoke e c' d s)
   \<and> ubsan_handle_type_mismatch e d ptr s = ubsan_handle_type_mismatch e d ptr' s
   \<and> ubsan_handle_type_mismatch_v1 e d ptr s = ubsan_handle_type_mismatch_v1 e d ptr' s
   \<and> ubsan_handle_add_overflow e d lhs rhs s = ubsan_handle_add_overflow e d lhs' rhs' s
   \<and> ubsan_handle_sub_overflow e d lhs rhs s = ubsan_handle_sub_overflow e d lhs' rhs' s
   \<and> ubsan_handle_mul_overflow e d lhs rhs s = ubsan_handle_mul_overflow e d lhs' rhs' s
   \<and> ubsan_handle_negate_overflow e d old_val s = ubsan_handle_negate_overflow e d old_val' s
   \<and> ubsan_handle_divrem_overflow e d lhs rhs s = ubsan_handle_divrem_overflow e d lhs' rhs' s
   \<and> ubsan_handle_pointer_overflow e d lhs rhs s = ubsan_handle_pointer_overflow e d lhs' rhs' s
   \<and> ubsan_handle_shift_out_of_bounds e d lhs rhs s =
       ubsan_handle_shift_out_of_bounds e d lhs' rhs' s
   \<and> ubsan_handle_out_of_bounds e d idx s = ubsan_handle_out_of_bounds e d idx' s
   \<and> ubsan_handle_vla_bound_not_positive e d bound s =
       ubsan_handle_vla_bound_not_positive e d bound' s
   \<and> ubsan_handle_load_invalid_value e d val s = ubsan_handle_load_invalid_value e d val' s
   \<and> ubsan_handle_nonnull_arg e d arg_no s = ubsan_handle_nonnull_arg e d arg_no' s"
proof (rule conjI)
  show "func_name c = func_name c' \<longrightarrow> invoke e c d s = invoke e c' d s"
    by (rule impI) (rule invoke_same_entry)
next
  show "ubsan_handle_type_mismatch e d ptr s = ubsan_handle_type_mismatch e d ptr' s
   \<and> ubsan_handle_type_mismatch_v1 e d ptr s = ubsan_handle_type_mismatch_v1 e d ptr' s
   \<and> ubsan_handle_add_overflow e d lhs rhs s = ubsan_handle_add_overflow e d lhs' rhs' s
   \<and> ubsan_handle_sub_overflow e d lhs rhs s = ubsan_handle_sub_overflow e d lhs' rhs' s
   \<and> ubsan_handle_mul_overflow e d lhs rhs s = ubsan_handle_mul_overflow e d lhs' rhs' s
   \<and> ubsan_handle_negate_overflow e d old_val s = ubsan_handle_negate_overflow e d old_val' s
   \<and> ubsan_handle_divrem_overflow e d lhs rhs s = ubsan_handle_divrem_overflow e d lhs' rhs' s
   \<and> ubsan_handle_pointer_overflow e d lhs rhs s = ubsan_handle_pointer_overflow e d lhs' rhs' s
   \<and> ubsan_handle_shift_out_of_bounds e d lhs rhs s =
       ubsan_handle_shift_out_of_bounds e d lhs' rhs' s
   \<and> ubsan_handle_out_of_bounds e d idx s = ubsan_handle_out_of_bounds e d idx' s
   \<and> ubsan_handle_vla_bound_not_positive e d bound s =
       ubsan_handle_vla_bound_not_positive e d bound' s
   \<and> ubsan_handle_load_invalid_value e d val s = ubsan_handle_load_invalid_value e d val' s
   \<and> ubsan_handle_nonnull_arg e d arg_no s = ubsan_handle_nonnull_arg e d arg_no' s"
    by (simp add: handler_defs)
qed

theorem operand_values_are_ignored_witness:
  "ubsan_handle_add_overflow \<lparr>target = KERNEL, primitive_returns = False\<rparr>
     \<lparr>loc = \<lparr>file_name = ''a.c'', line = 10, column = 5\<rparr>, overflow_data.type = 0\<rparr>
     0x7FFFFFFF 1 \<lparr>should_panic = True, trace = []\<rparr>
   = ubsan_handle_add_overflow \<lparr>target = KERNEL, primitive_returns = False\<rparr>
     \<lparr>loc = \<lparr>file_name = ''a.c'', line = 10, column = 5\<rparr>, overflow_data.type = 0\<rparr>
     0 0 \<lparr>should_panic = True, trace = []\<rparr>
   \<and> invoke \<lparr>target = KERNEL, primitive_returns = False\<rparr> (Out_of_bounds 12)
     \<lparr>loc = \<lparr>file_name = ''a.c'', line = 10, column = 5\<rparr>, array_type = 0, index_type = 0\<rparr>
     \<lparr>should_panic = True, trace = []\<rparr>
   = invoke \<lparr>target = KERNEL, primitive_returns = False\<rparr> (Out_of_bounds 0)
     \<lparr>loc = \<lparr>file_name = ''a.c'', line = 10, column = 5\<rparr>, array_type = 0, index_type = 0\<rparr>
     \<lparr>should_panic = True, trace = []\<rparr>"
proof (rule conjI)
  show "ubsan_handle_add_overflow \<lparr>target = KERNEL, primitive_returns = False\<rparr>
     \<lparr>loc = \<lparr>file_name = ''a.c'', line = 10, column = 5\<rparr>, overflow_data.type = 0\<rparr>
     0x7FFFFFFF 1 \<lparr>should_panic = True, trace = []\<rparr>
   = ubsan_handle_add_overflow \<lparr>target = KERNEL, primitive_returns = False\<rparr>
     \<lparr>loc = \<lparr>file_name = ''a.c'', line = 10, column = 5\<rparr>, overflow_data.type = 0\<rparr>
     0 0 \<lparr>should_panic = True, trace = []\<rparr>"
    by (rule operand_values_are_ignored [THEN conjunct2, THEN conjunct2, THEN conjunct2,
          THEN conjunct1])
next
  have entry: "func_name (Out_of_bounds 12) = func_name (Out_of_bounds 0)" by simp
  show "invoke \<lparr>target = KERNEL, primitive_returns = False\<rparr> (Out_of_bounds 12)
     \<lparr>loc = \<lparr>file_name = ''a.c'', line = 10, column = 5\<rparr>, array_type = 0, index_type = 0\<rparr>
     \<lparr>should_panic = True, trace = []\<rparr>
   = invoke \<lparr>target = KERNEL, primitive_returns = False\<rparr> (Out_of_bounds 0)
     \<lparr>loc = \<lparr>file_name = ''a.c'', line = 10, column = 5\<rparr>, array_type = 0, index_type = 0\<rparr>
     \<lparr>should_panic = True, trace = []\<rparr>"
    by (rule operand_values_are_ignored [THEN conjunct1, THEN mp, OF entry])
qed

text \<open>
  C9 (the reported flag is monotone). After any entry point, fatal or not, returning or
  not, the column is the column before with the flag added; hence a flag that is set
  stays set through one call, through any run of calls, through
  \<open>was_already_reported\<close> and through \<open>ubsan_handle_error\<close>.
\<close>

theorem reported_flag_is_monotone:
  "column (loc (data (invoke e c d s))) = column (loc d) OR UBSAN_LOC_REPORTED
   \<and> (reported (loc d) \<longrightarrow> reported (loc (data (invoke e c d s))))
   \<and> (reported (loc d) \<longrightarrow> reported (loc (data (run_calls e cs d s))))
   \<and> (reported l \<longrightarrow> reported (snd (was_already_reported l)))
   \<and> (reported l \<longrightarrow> reported (data (ubsan_handle_error e f l p s)))"
  by (simp add: invoke_column invoke_set run_calls_set_data was_already_reported_set
      ubsan_handle_error_set)

theorem reported_flag_is_monotone_witness:
  "reported (loc (data (run_calls \<lparr>target = KERNEL, primitive_returns = False\<rparr>
      [Add_overflow 1 2, Nonnull_arg None, Missing_return, Invalid_builtin]
      \<lparr>loc = \<lparr>file_name = ''a.c'', line = 10, column = 0x80000005\<rparr>\<rparr>
      \<lparr>should_panic = True, trace = []\<rparr>)))"
proof -
  let ?d = "\<lparr>loc = \<lparr>file_name = ''a.c'', line = 10, column = 0x80000005\<rparr>\<rparr>"
  have set: "reported (loc ?d)"
    by (simp add: reported_def UBSAN_LOC_REPORTED_def BIT32_def)
  note t = reported_flag_is_monotone [of "\<lparr>target = KERNEL, primitive_returns = False\<rparr>"
      "Add_overflow 1 2" ?d "\<lparr>should_panic = True, trace = []\<rparr>"
      "[Add_overflow 1 2, Nonnull_arg None, Missing_return, Invalid_builtin]"]
  from t [THEN conjunct2, THEN conjunct2, THEN conjunct1, THEN mp, OF set]
  show ?thesis .
qed

text \<open>
  C10 (a location that arrives with the top column bit set). Whatever \<open>should_panic\<close>
  is, a non-fatal entry point called on it changes nothing, emits nothing, calls no halt
  primitive and returns; and no entry point and no run of calls, the fatal ones
  included, ever adds a diagnostic line for it.
\<close>

theorem preset_flag_is_never_reported:
  assumes "reported (loc d)"
  shows "(\<not> fatal c \<longrightarrow> invoke e c d s = Outcome d s (Some ()))
       \<and> filter is_emsg (trace (state (invoke e c d s))) = filter is_emsg (trace s)
       \<and> filter is_emsg (trace (state (run_calls e cs d s))) = filter is_emsg (trace s)"
  using assms by (simp add: invoke_set run_calls_set_emsg)

theorem preset_flag_is_never_reported_witness:
  "invoke \<lparr>target = KERNEL, primitive_returns = False\<rparr> (Load_invalid_value 9)
      \<lparr>loc = \<lparr>file_name = ''a.c'', line = 10, column = 0x80000005\<rparr>,
         invalid_value_data.type = 0\<rparr>
      \<lparr>should_panic = True, trace = []\<rparr>
   = Outcome \<lparr>loc = \<lparr>file_name = ''a.c'', line = 10, column = 0x80000005\<rparr>,
         invalid_value_data.type = 0\<rparr>
       \<lparr>should_panic = True, trace = []\<rparr> (Some ())"
proof -
  let ?d = "\<lparr>loc = \<lparr>file_name = ''a.c'', line = 10, column = 0x80000005\<rparr>,
         invalid_value_data.type = 0\<rparr>"
  have set: "reported (loc ?d)"
    by (simp add: reported_def UBSAN_LOC_REPORTED_def BIT32_def)
  have kind: "\<not> fatal (Load_invalid_value 9)" by simp
  from preset_flag_is_never_reported [OF set, THEN conjunct1, THEN mp, OF kind]
  show ?thesis .
qed

end
